theory Spec2Isabelle
  imports Main
begin

section \<open>Data model of sync\_muk\_projects.py\<close>

text \<open>
  The script is a driver around external collaborators (LDAP lookups, the file system,
  the monitoring cache, the lock file).  A call of a collaborator is recorded as an
  event of a trace; what the collaborator answers (a value, or an exception) is read
  from a record of the world, so that every \<open>try\<close>/\<open>except\<close> of the source is a
  branch of the model.
\<close>

datatype institute = ANTWERPEN | BRUSSEL | GENT | LEUVEN

text \<open>
  Python exceptions.  \<open>KeyboardInterrupt\<close> stands for the exceptions that are not
  subclasses of \<open>Exception\<close>: a bare \<open>except:\<close> catches them, \<open>except Exception\<close>
  does not.
\<close>

datatype exn =
    NameError string
  | UnboundLocalError string
  | IndexError
  | KeyError
  | OSError
  | PyException string
  | KeyboardInterrupt

fun is_Exception :: "exn \<Rightarrow> bool" where
  "is_Exception KeyboardInterrupt = False"
| "is_Exception _ = True"

datatype nagios_exit = NAGIOS_EXIT_OK | NAGIOS_EXIT_WARNING | NAGIOS_EXIT_CRITICAL

text \<open>The argument of \<open>sys.exit\<close>: a literal integer or one of the monitoring constants.\<close>

datatype exit_code = Code int | Nagios nagios_exit

datatype outcome = Returned | SysExit exit_code | Uncaught exn

datatype level = INFO | WARNING | ERROR | EXCEPTION

datatype arg = Inst institute | Str string | Strs "string list"

text \<open>\<open>NagiosResult(message, **kwargs)\<close>: the message and the metrics.\<close>

datatype nagios_result = NagiosResult string "(string \<times> nat) list"

datatype step = create_scratch_fileset | populate_scratch_fallback | create_home_dir

text \<open>
  A changed entity as \<open>MukUser.lookup\<close> returns it: its id, the mutable \<open>dry_run\<close>
  attribute, and for each provisioning method whether calling it raises.
\<close>

record user =
  user_id :: string
  user_dry_run :: bool
  create_scratch_fileset_raises :: bool
  populate_scratch_fallback_raises :: bool
  create_home_dir_raises :: bool

type_synonym ldap_filter = string

datatype event =
    Log level string "arg list"
  | UserLookup ldap_filter institute
  | Stat institute string
  | Call step user
  | ReportAndExit
  | ProceedOnHaService "string option"
  | LockOrBork
  | LdapQuery
  | GroupLookup string
  | Cache nagios_exit nagios_result
  | LockRelease
  | ConvertTimestamp
  | WriteTimestamp string string bool
  | ReleaseOrBork nagios_result

record options =
  dry_run :: bool
  nagios :: bool
  ha :: "string option"

section \<open>\<open>process\<close> (lines 79--100)\<close>

definition mark_dry_run :: "options \<Rightarrow> user \<Rightarrow> user" where
  \<comment> \<open>\<open>if options.dry_run: user.dry_run = True\<close>\<close>
  "mark_dry_run options user = (if dry_run options then user\<lparr>user_dry_run := True\<rparr> else user)"

definition provision :: "user \<Rightarrow> bool \<times> event list" where
  \<comment> \<open>the \<open>try\<close> block of the loop body with its bare \<open>except:\<close>; the flag says whether
      the handler ran\<close>
  "provision user =
     (if create_scratch_fileset_raises user then
        (True, [Call create_scratch_fileset user,
                Log EXCEPTION ''Cannot process user %s'' [Str (user_id user)]])
      else if populate_scratch_fallback_raises user then
        (True, [Call create_scratch_fileset user, Call populate_scratch_fallback user,
                Log EXCEPTION ''Cannot process user %s'' [Str (user_id user)]])
      else if create_home_dir_raises user then
        (True, [Call create_scratch_fileset user, Call populate_scratch_fallback user,
                Call create_home_dir user,
                Log EXCEPTION ''Cannot process user %s'' [Str (user_id user)]])
      else
        (False, [Call create_scratch_fileset user, Call populate_scratch_fallback user,
                 Call create_home_dir user]))"

fun process_loop :: "options \<Rightarrow> user list \<Rightarrow> user list \<Rightarrow> user list \<times> event list" where
  "process_loop options [] error_users = (error_users, [])"
| "process_loop options (user # users) error_users =
     (let user' = mark_dry_run options user;
          (raised, t) = provision user';
          (res, t') = process_loop options users
                        (if raised then error_users @ [user'] else error_users)
      in (res, t @ t'))"

definition process :: "options \<Rightarrow> user list \<Rightarrow> user list \<times> event list" where
  "process options users = process_loop options users []"

section \<open>The world of the collaborators\<close>

text \<open>The group object of the directory service, as far as \<open>main\<close> reads it.\<close>

record group =
  autogroup :: string
  memberUid :: "string list"

text \<open>
  What the collaborators answer.  For a collaborator that may end the process itself
  (\<open>report_and_exit\<close>, \<open>lock_or_bork\<close>, \<open>release_or_bork\<close>), \<open>Some c\<close> says that it
  exits with \<open>c\<close> and \<open>None\<close> that it returns.  \<open>nfs_link_pathnames\<close> is the
  two-level dictionary of the \<open>Muk\<close> configuration.  \<open>process_project\<close> is the truth
  value a callee bound to that name would return; the module binds no such name (see
  \<open>module_globals\<close>).  The logger, the \<open>NagiosResult\<close> constructor and
  \<open>nagios_reporter.cache\<close> are taken to return normally.
\<close>

record world =
  institutes :: "institute list"
  nfs_link_pathnames :: "institute \<rightharpoonup> (string \<rightharpoonup> string)"
  muk_project_group :: string
  muk_user_group :: string
  muk_user_lookup :: "ldap_filter \<Rightarrow> institute \<Rightarrow> exn + user list"
  os_stat_raises :: "string \<Rightarrow> bool"
  report_and_exit :: "exit_code option"
  proceed_on_ha_service :: "string option \<Rightarrow> bool"
  lock_or_bork :: "exit_code option"
  ldap_query_raises :: "exn option"
  group_lookup :: "string \<Rightarrow> exn + group list"
  process_project :: "string \<Rightarrow> bool"
  convert_timestamp :: "exn + string"
  write_timestamp_raises :: bool
  release_or_bork :: "exit_code option"

section \<open>\<open>process_institute\<close> (lines 52--76)\<close>

text \<open>The dictionary \<open>{'ok': ..., 'fail': ...}\<close> that \<open>process_institute\<close> returns.\<close>

record usercount =
  ok :: int
  fail :: int

definition nfs_home :: "world \<Rightarrow> institute \<Rightarrow> string option" where
  \<comment> \<open>\<open>muk.nfs_link_pathnames[institute]['home']\<close>; \<open>None\<close> is the \<open>KeyError\<close> of either
      subscript\<close>
  "nfs_home w inst =
     (case nfs_link_pathnames w inst of None \<Rightarrow> None | Some d \<Rightarrow> d ''home'')"

definition cannot_stat :: "institute \<Rightarrow> event" where
  "cannot_stat inst =
     Log EXCEPTION ''Cannot process users from institute %s, cannot stat link to NFS mount''
       [Inst inst]"

definition count_users :: "user list \<Rightarrow> user list \<Rightarrow> usercount" where
  \<comment> \<open>lines 71--76\<close>
  "count_users changed_users error_users =
     (let fail_usercount = int (length error_users);
          ok_usercount = int (length changed_users) - fail_usercount
      in \<lparr>ok = ok_usercount, fail = fail_usercount\<rparr>)"

text \<open>
  Python resolves the global name \<open>process\<close> when the call is made, so the callee is a
  parameter here; \<open>process_institute\<close> below passes the module's own \<open>process\<close>.  When
  the callee raises, the inner handler only logs, the outer \<open>try\<close> ends normally, and
  line 71 reads \<open>error_users\<close>, which no branch has assigned.
\<close>

definition process_institute_with ::
  "(options \<Rightarrow> user list \<Rightarrow> (exn + user list) \<times> event list) \<Rightarrow>
   world \<Rightarrow> options \<Rightarrow> institute \<Rightarrow> ldap_filter \<Rightarrow> (exn + usercount) \<times> event list" where
  "process_institute_with proc w options inst users_filter =
     (case muk_user_lookup w users_filter inst of
        Inl e \<Rightarrow> (Inl e, [UserLookup users_filter inst])
      | Inr changed_users \<Rightarrow>
          (let t0 = [UserLookup users_filter inst,
                     Log INFO ''Processing the following users from {institute}: {users}''
                       [Inst inst, Strs (map user_id changed_users)]]
           in case nfs_home w inst of
                None \<Rightarrow>
                  (Inr (count_users changed_users changed_users), t0 @ [cannot_stat inst])
              | Some nfs_location \<Rightarrow>
                  (let t1 = t0 @ [Log INFO ''Checking link to NFS mount at %s'' [Str nfs_location],
                                  Stat inst nfs_location]
                   in if os_stat_raises w nfs_location then
                        (Inr (count_users changed_users changed_users), t1 @ [cannot_stat inst])
                      else
                        (case proc options changed_users of
                           (Inr error_users, tp) \<Rightarrow>
                             (Inr (count_users changed_users error_users), t1 @ tp)
                         | (Inl e, tp) \<Rightarrow>
                             (Inl (UnboundLocalError ''error_users''),
                              t1 @ tp @
                              [Log EXCEPTION ''Something went wrong processing users from %s''
                                 [Inst inst]])))))"

definition process_call :: "options \<Rightarrow> user list \<Rightarrow> (exn + user list) \<times> event list" where
  \<comment> \<open>the call \<open>process(options, changed_users)\<close> with the module's own binding\<close>
  "process_call options users = (Inr (fst (process options users)), snd (process options users))"

definition process_institute ::
  "world \<Rightarrow> options \<Rightarrow> institute \<Rightarrow> ldap_filter \<Rightarrow> (exn + usercount) \<times> event list" where
  "process_institute = process_institute_with process_call"

section \<open>\<open>force_nfs_mounts\<close> (lines 102--115)\<close>

definition not_performing :: event where
  "not_performing = Log WARNING ''Not performing any action for institute %s'' [Inst BRUSSEL]"

text \<open>
  When the path lookup itself raises \<open>KeyError\<close>, the handler's message evaluates the
  same subscript again and the second \<open>KeyError\<close> leaves the function.
\<close>

fun force_nfs_mounts_loop ::
  "world \<Rightarrow> institute list \<Rightarrow> institute list \<Rightarrow> (exn + institute list) \<times> event list" where
  "force_nfs_mounts_loop w [] nfs_mounts = (Inr nfs_mounts, [])"
| "force_nfs_mounts_loop w (inst # rest) nfs_mounts =
     (if inst = BRUSSEL then
        (let (r, t) = force_nfs_mounts_loop w rest nfs_mounts in (r, not_performing # t))
      else
        (case nfs_home w inst of
           None \<Rightarrow> (Inl KeyError, [])
         | Some path \<Rightarrow>
             if os_stat_raises w path then
               (let (r, t) = force_nfs_mounts_loop w rest nfs_mounts
                in (r, Stat inst path #
                       Log EXCEPTION ''Cannot stat %s, not adding institute'' [Str path] # t))
             else
               (let (r, t) = force_nfs_mounts_loop w rest (nfs_mounts @ [inst])
                in (r, Stat inst path # t))))"

definition force_nfs_mounts :: "world \<Rightarrow> (exn + institute list) \<times> event list" where
  "force_nfs_mounts w = force_nfs_mounts_loop w (institutes w) []"

section \<open>\<open>main\<close> (lines 118--215)\<close>

definition NAGIOS_HEADER :: string where
  "NAGIOS_HEADER = ''sync_muk_projects''"

definition SYNC_TIMESTAMP_FILENAME :: string where
  "SYNC_TIMESTAMP_FILENAME = ''/var/run/'' @ NAGIOS_HEADER @ ''.timestamp''"

text \<open>
  The names bound at module level when \<open>main\<close> runs: the imports (lines 21--36), the
  assignments (lines 38--49) and the four functions.  A name that is neither here nor
  a builtin raises \<open>NameError\<close> when it is evaluated.
\<close>

definition module_globals :: "string list" where
  "module_globals =
     [''os'', ''sys'', ''Group'', ''MukUser'', ''Muk'', ''ANTWERPEN'', ''BRUSSEL'', ''GENT'',
      ''LEUVEN'', ''VscConfiguration'', ''CnFilter'', ''InstituteFilter'', ''LdapFilter'',
      ''LdapQuery'', ''convert_timestamp'', ''write_timestamp'', ''fancylogger'',
      ''proceed_on_ha_service'', ''simple_option'', ''lock_or_bork'', ''release_or_bork'',
      ''NagiosReporter'', ''NagiosResult'', ''NAGIOS_EXIT_OK'', ''NAGIOS_EXIT_CRITICAL'',
      ''NAGIOS_EXIT_WARNING'', ''TimestampedPidLockfile'', ''NAGIOS_HEADER'',
      ''NAGIOS_CHECK_FILENAME'', ''NAGIOS_CHECK_INTERVAL_THRESHOLD'',
      ''SYNC_TIMESTAMP_FILENAME'', ''SYNC_MUK_PROJECTS_LOGFILE'',
      ''SYNC_MUK_PROJECTS_LOCKFILE'', ''logger'', ''process_institute'', ''process'',
      ''force_nfs_mounts'', ''main'']"

definition load_global :: "string \<Rightarrow> exn option" where
  \<comment> \<open>\<open>None\<close>: the name is bound; \<open>Some e\<close>: evaluating it raises \<open>e\<close>\<close>
  "load_global name = (if name \<in> set module_globals then None else Some (NameError name))"

fun muk_projects :: "string list \<Rightarrow> exn + string list" where
  \<comment> \<open>line 171: \<open>[MukProject(project_id) for project_id in muk_group.memberUid]\<close>; the
      element expression is evaluated once per member, so not at all for no member\<close>
  "muk_projects [] = Inr []"
| "muk_projects (project_id # rest) =
     (case load_global ''MukProject'' of
        Some e \<Rightarrow> Inl e
      | None \<Rightarrow> (case muk_projects rest of Inl e \<Rightarrow> Inl e | Inr ps \<Rightarrow> Inr (project_id # ps)))"

fun project_loop :: "world \<Rightarrow> string list \<Rightarrow> nat \<Rightarrow> nat \<Rightarrow> exn + nat \<times> nat" where
  \<comment> \<open>lines 176--180\<close>
  "project_loop w [] projects_ok projects_fail = Inr (projects_ok, projects_fail)"
| "project_loop w (project # rest) projects_ok projects_fail =
     (case load_global ''process_project'' of
        Some e \<Rightarrow> Inl e
      | None \<Rightarrow>
          if process_project w project then project_loop w rest (projects_ok + 1) projects_fail
          else project_loop w rest projects_ok (projects_fail + 1))"

definition first_group :: "world \<Rightarrow> exn + group" where
  \<comment> \<open>\<open>Group.lookup(muk_project_group_filter)[0]\<close>\<close>
  "first_group w =
     (case group_lookup w (muk_project_group w) of
        Inl e \<Rightarrow> Inl e
      | Inr [] \<Rightarrow> Inl IndexError
      | Inr (g # _) \<Rightarrow> Inr g)"

definition cannot_proceed :: string where
  "cannot_proceed = ''Could not find a group with cn %s. Cannot proceed synchronisation''"

text \<open>
  The body of the \<open>try\<close> of lines 156--180.  \<open>logger.raiseException\<close> logs its message
  and raises an exception that carries it.
\<close>

definition main_try :: "world \<Rightarrow> (exn + nat \<times> nat) \<times> event list" where
  "main_try w =
     (case ldap_query_raises w of
        Some e \<Rightarrow> (Inl e, [LdapQuery])
      | None \<Rightarrow>
          (let t0 = [LdapQuery, GroupLookup (muk_project_group w)]
           in case first_group w of
                Inl e \<Rightarrow>
                  if e = IndexError then
                    (Inl (PyException cannot_proceed),
                     t0 @ [Log ERROR cannot_proceed [Str (muk_user_group w)]])
                  else (Inl e, t0)
              | Inr muk_group \<Rightarrow>
                  (let t1 = t0 @ [Log INFO ''Muk projects = %s'' [Str (autogroup muk_group)]]
                   in case muk_projects (memberUid muk_group) of
                        Inl e \<Rightarrow> (Inl e, t1)
                      | Inr projects \<Rightarrow> (project_loop w projects 0 0, t1))))"

text \<open>
  Lines 190--215, for the counts the loop has left.  \<open>WriteTimestamp f ts b\<close> is the call
  \<open>write_timestamp(f, ts)\<close>; \<open>b\<close> says that it returned, that is, that the file was
  written.
\<close>

definition result_dict :: "nat \<Rightarrow> nat \<Rightarrow> (string \<times> nat) list" where
  \<comment> \<open>lines 190--195\<close>
  "result_dict projects_ok projects_fail =
     [(''projects_ok'', projects_ok), (''projects_fail'', projects_fail),
      (''projects_fail_warning'', 1), (''projects_fail_critical'', 3)]"

definition main_report :: "world \<Rightarrow> options \<Rightarrow> nat \<Rightarrow> nat \<Rightarrow> outcome \<times> event list" where
  "main_report w opts projects_ok projects_fail =
     (let result_dict = result_dict projects_ok projects_fail;
          t = (if projects_fail > 0 then
                 [Cache NAGIOS_EXIT_WARNING
                    (NagiosResult ''several projects were not synched'' result_dict)]
               else
                 (case convert_timestamp w of
                    Inl e \<Rightarrow>
                      [ConvertTimestamp,
                       Log EXCEPTION ''Something broke writing the timestamp'' [],
                       Cache NAGIOS_EXIT_WARNING
                         (NagiosResult ''muk projects synchronised, filestamp not written''
                            result_dict)]
                  | Inr ldap_timestamp \<Rightarrow>
                      if dry_run opts then
                        [ConvertTimestamp,
                         Cache NAGIOS_EXIT_OK
                           (NagiosResult ''muk projects synchronised'' result_dict)]
                      else if write_timestamp_raises w then
                        [ConvertTimestamp,
                         WriteTimestamp SYNC_TIMESTAMP_FILENAME ldap_timestamp False,
                         Log EXCEPTION ''Something broke writing the timestamp'' [],
                         Cache NAGIOS_EXIT_WARNING
                           (NagiosResult ''muk projects synchronised, filestamp not written''
                              result_dict)]
                      else
                        [ConvertTimestamp,
                         WriteTimestamp SYNC_TIMESTAMP_FILENAME ldap_timestamp True,
                         Cache NAGIOS_EXIT_OK
                           (NagiosResult ''muk projects synchronised'' result_dict)]));
          release = ReleaseOrBork
                      (NagiosResult ''muk projects synchronised, lock release failed''
                         result_dict)
      in case release_or_bork w of
           Some c \<Rightarrow> (SysExit c, t @ [release])
         | None \<Rightarrow>
             (Returned,
              t @ [release,
                   Log INFO
                     ''Finished synchronisation of the Muk users from the LDAP with the filesystem.''
                     []]))"

text \<open>
  The handler of line 182.  Its second statement evaluates \<open>SYNC_MUK_USERS_LOGFILE\<close>
  while it builds the argument of \<open>nagios_reporter.cache\<close>, before anything is cached.
\<close>

definition main_except :: "outcome \<times> event list" where
  "main_except =
     (case load_global ''SYNC_MUK_USERS_LOGFILE'' of
        Some e \<Rightarrow> (Uncaught e, [Log EXCEPTION ''Fail during muk users synchronisation'' []])
      | None \<Rightarrow>
          (SysExit (Nagios NAGIOS_EXIT_CRITICAL),
           [Log EXCEPTION ''Fail during muk users synchronisation'' [],
            Cache NAGIOS_EXIT_CRITICAL
              (NagiosResult ''Script failed, check log file ({logfile})'' []),
            LockRelease]))"

definition main :: "world \<Rightarrow> options \<Rightarrow> outcome \<times> event list" where
  "main w opts =
     (if nagios opts then
        (case report_and_exit w of
           Some c \<Rightarrow> (SysExit c, [ReportAndExit])
         | None \<Rightarrow> (SysExit (Code 0), [ReportAndExit]))
      else
        (let t0 = [Log INFO ''Starting synchronisation of Muk users.'' [],
                   ProceedOnHaService (ha opts)]
         in if \<not> proceed_on_ha_service w (ha opts) then
              (SysExit (Nagios NAGIOS_EXIT_WARNING),
               t0 @ [Log WARNING ''Not running on the target host in the HA setup. Stopping.'' [],
                     Cache NAGIOS_EXIT_WARNING (NagiosResult ''Not running on the HA master.'' [])])
            else
              (case lock_or_bork w of
                 Some c \<Rightarrow> (SysExit c, t0 @ [LockOrBork])
               | None \<Rightarrow>
                   (case main_try w of
                      (Inl e, t) \<Rightarrow>
                        if is_Exception e then
                          (fst main_except, t0 @ [LockOrBork] @ t @ snd main_except)
                        else (Uncaught e, t0 @ [LockOrBork] @ t)
                    | (Inr (projects_ok, projects_fail), t) \<Rightarrow>
                        (let (out, t') = main_report w opts projects_ok projects_fail
                         in (out, t0 @ [LockOrBork] @ t @ t'))))))"

section \<open>Vocabulary of the properties\<close>

fun raises :: "user \<Rightarrow> step \<Rightarrow> bool" where
  "raises u create_scratch_fileset = create_scratch_fileset_raises u"
| "raises u populate_scratch_fallback = populate_scratch_fallback_raises u"
| "raises u create_home_dir = create_home_dir_raises u"

text \<open>A list cut after its first element that satisfies \<open>P\<close>.\<close>

fun upto_first :: "('a \<Rightarrow> bool) \<Rightarrow> 'a list \<Rightarrow> 'a list" where
  "upto_first P [] = []"
| "upto_first P (x # xs) = (if P x then [x] else x # upto_first P xs)"

definition steps :: "step list" where
  "steps = [create_scratch_fileset, populate_scratch_fallback, create_home_dir]"

fun is_call :: "event \<Rightarrow> bool" where
  "is_call (Call s u) = True"
| "is_call _ = False"

text \<open>The mount check of an institute fails when the path lookup or \<open>os.stat\<close> raises.\<close>

definition mount_check_fails :: "world \<Rightarrow> institute \<Rightarrow> bool" where
  "mount_check_fails w inst =
     (case nfs_home w inst of None \<Rightarrow> True | Some path \<Rightarrow> os_stat_raises w path)"

fun is_stat :: "event \<Rightarrow> bool" where
  "is_stat (Stat i p) = True"
| "is_stat _ = False"

text \<open>The position of the first occurrence, and the order of first occurrences in a trace.\<close>

fun index_of :: "'a \<Rightarrow> 'a list \<Rightarrow> nat option" where
  "index_of x [] = None"
| "index_of x (y # ys) = (if x = y then Some 0 else map_option Suc (index_of x ys))"

definition happens_before :: "'a \<Rightarrow> 'a \<Rightarrow> 'a list \<Rightarrow> bool" where
  "happens_before a b t =
     (case index_of a t of
        None \<Rightarrow> False
      | Some i \<Rightarrow> (case index_of b t of None \<Rightarrow> False | Some j \<Rightarrow> i < j))"

fun is_lookup :: "event \<Rightarrow> bool" where
  "is_lookup (UserLookup f i) = True"
| "is_lookup _ = False"

text \<open>The events that query, stat or provision for an institute.\<close>

fun touches_institute :: "event \<Rightarrow> bool" where
  "touches_institute (UserLookup f i) = True"
| "touches_institute (Stat i p) = True"
| "touches_institute (Call s u) = True"
| "touches_institute _ = False"

text \<open>What a trace says about the timestamp file and the monitoring cache.\<close>

fun is_write_call :: "event \<Rightarrow> bool" where
  "is_write_call (WriteTimestamp f ts b) = True"
| "is_write_call _ = False"

fun is_written :: "event \<Rightarrow> bool" where
  "is_written (WriteTimestamp f ts b) = b"
| "is_written _ = False"

definition timestamp_written :: "event list \<Rightarrow> bool" where
  "timestamp_written t = list_ex is_written t"

fun cached :: "event list \<Rightarrow> (nagios_exit \<times> nagios_result) list" where
  "cached [] = []"
| "cached (Cache c r # t) = (c, r) # cached t"
| "cached (_ # t) = cached t"

text \<open>
  A run reaches the outcome evaluation of line 190 with the counts \<open>c\<close>: it is not the
  report-only branch, passes the HA gate, acquires the lock, and the \<open>try\<close> block ends
  without an exception.
\<close>

definition reaches_report :: "world \<Rightarrow> options \<Rightarrow> nat \<times> nat \<Rightarrow> bool" where
  "reaches_report w opts c =
     (\<not> nagios opts \<and> proceed_on_ha_service w (ha opts) \<and> lock_or_bork w = None \<and>
      fst (main_try w) = Inr c)"

section \<open>Concrete inputs\<close>

definition alice :: user where
  "alice = \<lparr>user_id = ''vsc40001'', user_dry_run = False, create_scratch_fileset_raises = False,
            populate_scratch_fallback_raises = False, create_home_dir_raises = False\<rparr>"

definition bob :: user where
  "bob = \<lparr>user_id = ''vsc40002'', user_dry_run = False, create_scratch_fileset_raises = False,
          populate_scratch_fallback_raises = True, create_home_dir_raises = False\<rparr>"

definition carol :: user where
  "carol = \<lparr>user_id = ''vsc30001'', user_dry_run = False, create_scratch_fileset_raises = False,
            populate_scratch_fallback_raises = False, create_home_dir_raises = False\<rparr>"

definition example_options :: options where
  "example_options = \<lparr>dry_run = False, nagios = False, ha = None\<rparr>"

definition example_world :: world where
  "example_world =
     \<lparr>institutes = [GENT, BRUSSEL, LEUVEN],
      nfs_link_pathnames =
        (\<lambda>i. if i = ANTWERPEN then None
             else Some [''home'' \<mapsto> (if i = GENT then ''/nfsmuk/gent''
                                     else if i = LEUVEN then ''/nfsmuk/leuven''
                                     else ''/nfsmuk/brussel'')]),
      muk_project_group = ''gmukprojects'',
      muk_user_group = ''gmukusers'',
      muk_user_lookup =
        (\<lambda>f i. if i = GENT then Inr [alice, bob]
               else if i = LEUVEN then Inr [carol, alice, bob]
               else if i = BRUSSEL then Inr [carol]
               else Inl (PyException ''LDAP server down'')),
      os_stat_raises = (\<lambda>p. p = ''/nfsmuk/leuven''),
      report_and_exit = Some (Code 2),
      proceed_on_ha_service = (\<lambda>h. True),
      lock_or_bork = None,
      ldap_query_raises = None,
      group_lookup = (\<lambda>cn. if cn = ''gmukprojects''
                            then Inr [\<lparr>autogroup = ''gmukprojects'', memberUid = [''project1'']\<rparr>]
                            else Inr []),
      process_project = (\<lambda>p. True),
      convert_timestamp = Inr ''20131105120000Z'',
      write_timestamp_raises = False,
      release_or_bork = None\<rparr>"

text \<open>A callee bound to \<open>process\<close> that raises.\<close>

definition raising_callee :: "options \<Rightarrow> user list \<Rightarrow> (exn + user list) \<times> event list" where
  "raising_callee options users = (Inl (PyException ''logging handler failed''), [])"

text \<open>Runs of \<open>main\<close>: the report-only flag, no group, a group without members, a
  timestamp file that cannot be written.\<close>

definition nagios_options :: options where
  "nagios_options = \<lparr>dry_run = False, nagios = True, ha = None\<rparr>"

definition no_group_world :: world where
  "no_group_world = example_world\<lparr>group_lookup := (\<lambda>cn. Inr [])\<rparr>"

definition idle_world :: world where
  "idle_world =
     example_world\<lparr>group_lookup :=
       (\<lambda>cn. Inr [\<lparr>autogroup = ''gmukprojects'', memberUid = []\<rparr>])\<rparr>"

definition readonly_world :: world where
  "readonly_world = idle_world\<lparr>write_timestamp_raises := True\<rparr>"

section \<open>Properties\<close>

subsection \<open>The provisioner\<close>

lemma process_loop_trace:
  "snd (process_loop options users acc) =
     concat (map (\<lambda>u. snd (provision (mark_dry_run options u))) users)"
  by (induction users arbitrary: acc) (simp_all add: Let_def case_prod_beta)

lemma provision_calls:
  "filter is_call (snd (provision u)) = map (\<lambda>s. Call s u) (upto_first (raises u) steps)"
  by (simp add: provision_def steps_def)

lemma some_step_raises:
  "(\<exists>s. raises u s) =
     (create_scratch_fileset_raises u \<or> populate_scratch_fallback_raises u \<or>
      create_home_dir_raises u)"
proof
  assume "\<exists>s. raises u s"
  then obtain s where "raises u s" ..
  then show "create_scratch_fileset_raises u \<or> populate_scratch_fallback_raises u \<or>
             create_home_dir_raises u"
    by (cases s) simp_all
next
  assume "create_scratch_fileset_raises u \<or> populate_scratch_fallback_raises u \<or>
          create_home_dir_raises u"
  then consider "raises u create_scratch_fileset" | "raises u populate_scratch_fallback"
    | "raises u create_home_dir"
    by auto
  then show "\<exists>s. raises u s" by cases blast+
qed

lemma provision_raised: "fst (provision u) = (\<exists>s. raises u s)"
  unfolding some_step_raises by (simp add: provision_def)

lemma process_loop_errors:
  "fst (process_loop options users acc) =
     acc @ filter (\<lambda>u. \<exists>s. raises u s) (map (mark_dry_run options) users)"
proof (induction users arbitrary: acc)
  case Nil
  show ?case by simp
next
  case (Cons u us)
  have "fst (provision (mark_dry_run options u)) = (\<exists>s. raises (mark_dry_run options u) s)"
    by (rule provision_raised)
  then show ?case using Cons.IH
    by (cases "provision (mark_dry_run options u)") (simp add: Let_def case_prod_beta)
qed

lemma raises_mark: "raises (mark_dry_run options u) s = raises u s"
  by (cases s) (simp_all add: mark_dry_run_def)

lemma process_calls:
  "filter is_call (snd (process options users)) =
     concat (map (\<lambda>u. map (\<lambda>s. Call s u) (upto_first (raises u) steps))
                 (map (mark_dry_run options) users))"
  unfolding process_def process_loop_trace
  by (induction users) (simp_all add: provision_calls)

lemma process_errors:
  "fst (process options users) =
     filter (\<lambda>u. \<exists>s. raises u s) (map (mark_dry_run options) users)"
  by (simp add: process_def process_loop_errors)

text \<open>
  C3.  For every list of entities, the provisioning calls that \<open>process\<close> makes are, entity
  by entity in the order of the list, \<open>create_scratch_fileset\<close>, \<open>populate_scratch_fallback\<close>,
  \<open>create_home_dir\<close>, cut after the first step that raises (the remaining steps of that
  entity are not invoked, and the next entity is still processed).  The failed set is
  exactly the entities with a raising step, so an entity with no raising step never
  appears in it.
\<close>

theorem process_isolates_failures:
  "filter is_call (snd (process options users)) =
     concat (map (\<lambda>u. map (\<lambda>s. Call s u) (upto_first (raises u) steps))
                 (map (mark_dry_run options) users)) \<and>
   fst (process options users) =
     filter (\<lambda>u. \<exists>s. raises u s) (map (mark_dry_run options) users) \<and>
   (\<forall>u \<in> set users. (\<forall>s. \<not> raises u s) \<longrightarrow>
      mark_dry_run options u \<notin> set (fst (process options users)))"
proof (intro conjI)
  show "filter is_call (snd (process options users)) =
     concat (map (\<lambda>u. map (\<lambda>s. Call s u) (upto_first (raises u) steps))
                 (map (mark_dry_run options) users))"
    by (rule process_calls)
  show "fst (process options users) =
     filter (\<lambda>u. \<exists>s. raises u s) (map (mark_dry_run options) users)"
    by (rule process_errors)
  show "\<forall>u \<in> set users. (\<forall>s. \<not> raises u s) \<longrightarrow>
      mark_dry_run options u \<notin> set (fst (process options users))"
    unfolding process_errors by (auto simp: raises_mark)
qed

theorem process_isolates_failures_witness:
  "filter is_call (snd (process example_options [bob, alice])) =
     [Call create_scratch_fileset bob, Call populate_scratch_fallback bob,
      Call create_scratch_fileset alice, Call populate_scratch_fallback alice,
      Call create_home_dir alice] \<and>
   fst (process example_options [bob, alice]) = [bob] \<and>
   alice \<notin> set (fst (process example_options [bob, alice]))"
  using process_isolates_failures [of example_options "[bob, alice]"]
  by (simp add: example_options_def alice_def bob_def mark_dry_run_def steps_def
      some_step_raises)

subsection \<open>\<open>process_institute\<close>\<close>

lemma institute_lookup_raises:
  "muk_user_lookup w f inst = Inl e \<Longrightarrow>
   process_institute_with proc w options inst f = (Inl e, [UserLookup f inst])"
  by (simp add: process_institute_with_def)

lemma institute_no_path:
  "muk_user_lookup w f inst = Inr users \<Longrightarrow> nfs_home w inst = None \<Longrightarrow>
   process_institute_with proc w options inst f =
     (Inr (count_users users users),
      [UserLookup f inst,
       Log INFO ''Processing the following users from {institute}: {users}''
         [Inst inst, Strs (map user_id users)],
       cannot_stat inst])"
  by (simp add: process_institute_with_def)

lemma institute_stat_raises:
  "muk_user_lookup w f inst = Inr users \<Longrightarrow> nfs_home w inst = Some p \<Longrightarrow>
   os_stat_raises w p \<Longrightarrow>
   process_institute_with proc w options inst f =
     (Inr (count_users users users),
      [UserLookup f inst,
       Log INFO ''Processing the following users from {institute}: {users}''
         [Inst inst, Strs (map user_id users)],
       Log INFO ''Checking link to NFS mount at %s'' [Str p],
       Stat inst p,
       cannot_stat inst])"
  by (simp add: process_institute_with_def)

lemma institute_callee_returns:
  "muk_user_lookup w f inst = Inr users \<Longrightarrow> nfs_home w inst = Some p \<Longrightarrow>
   \<not> os_stat_raises w p \<Longrightarrow> proc options users = (Inr error_users, tp) \<Longrightarrow>
   process_institute_with proc w options inst f =
     (Inr (count_users users error_users),
      [UserLookup f inst,
       Log INFO ''Processing the following users from {institute}: {users}''
         [Inst inst, Strs (map user_id users)],
       Log INFO ''Checking link to NFS mount at %s'' [Str p],
       Stat inst p] @ tp)"
  by (simp add: process_institute_with_def)

lemma institute_callee_raises:
  "muk_user_lookup w f inst = Inr users \<Longrightarrow> nfs_home w inst = Some p \<Longrightarrow>
   \<not> os_stat_raises w p \<Longrightarrow> proc options users = (Inl e, tp) \<Longrightarrow>
   process_institute_with proc w options inst f =
     (Inl (UnboundLocalError ''error_users''),
      [UserLookup f inst,
       Log INFO ''Processing the following users from {institute}: {users}''
         [Inst inst, Strs (map user_id users)],
       Log INFO ''Checking link to NFS mount at %s'' [Str p],
       Stat inst p] @ tp @
      [Log EXCEPTION ''Something went wrong processing users from %s'' [Inst inst]])"
  by (simp add: process_institute_with_def)

lemma count_users_all_failed: "count_users users users = \<lparr>ok = 0, fail = int (length users)\<rparr>"
  by (simp add: count_users_def)

text \<open>
  C4.  When the lookup of an institute returned its entities and the mount check of the
  institute fails (the path lookup or \<open>os.stat\<close> raises), \<open>process_institute\<close> makes no
  provisioning call, returns \<open>ok = 0\<close> and \<open>fail\<close> = the number of looked-up entities,
  logs the failure once, and stats at most once (no retry).
\<close>

theorem unreachable_mount_fails_all:
  assumes lookup: "muk_user_lookup w users_filter inst = Inr users"
    and fails: "mount_check_fails w inst"
  shows "fst (process_institute w options inst users_filter) =
           Inr \<lparr>ok = 0, fail = int (length users)\<rparr> \<and>
         filter is_call (snd (process_institute w options inst users_filter)) = [] \<and>
         count_list (snd (process_institute w options inst users_filter)) (cannot_stat inst) = 1 \<and>
         length (filter is_stat (snd (process_institute w options inst users_filter))) \<le> 1"
proof (cases "nfs_home w inst")
  case None
  have "process_institute w options inst users_filter =
     (Inr (count_users users users),
      [UserLookup users_filter inst,
       Log INFO ''Processing the following users from {institute}: {users}''
         [Inst inst, Strs (map user_id users)],
       cannot_stat inst])"
    unfolding process_institute_def by (rule institute_no_path [OF lookup None])
  then show ?thesis
    by (simp add: count_users_all_failed cannot_stat_def)
next
  case (Some p)
  with fails have "os_stat_raises w p" by (simp add: mount_check_fails_def)
  then have "process_institute w options inst users_filter =
     (Inr (count_users users users),
      [UserLookup users_filter inst,
       Log INFO ''Processing the following users from {institute}: {users}''
         [Inst inst, Strs (map user_id users)],
       Log INFO ''Checking link to NFS mount at %s'' [Str p],
       Stat inst p,
       cannot_stat inst])"
    unfolding process_institute_def by (rule institute_stat_raises [OF lookup Some])
  then show ?thesis
    by (simp add: count_users_all_failed cannot_stat_def)
qed

theorem unreachable_mount_fails_all_witness:
  "fst (process_institute example_world example_options LEUVEN ''changed'') =
     Inr \<lparr>ok = 0, fail = 3\<rparr> \<and>
   filter is_call (snd (process_institute example_world example_options LEUVEN ''changed'')) = [] \<and>
   count_list (snd (process_institute example_world example_options LEUVEN ''changed''))
     (cannot_stat LEUVEN) = 1"
  using unreachable_mount_fails_all [of example_world "''changed''" LEUVEN "[carol, alice, bob]" example_options]
  by (simp add: example_world_def mount_check_fails_def nfs_home_def)

lemma process_no_stat: "filter is_stat (snd (process options users)) = []"
  unfolding process_def process_loop_trace
  by (induction users) (simp_all add: provision_def)

lemma process_no_lookup: "filter is_lookup (snd (process options users)) = []"
  unfolding process_def process_loop_trace
  by (induction users) (simp_all add: provision_def)

lemma stat_not_in_process: "Stat i p \<notin> set (snd (process options users))"
proof
  assume "Stat i p \<in> set (snd (process options users))"
  then have "Stat i p \<in> set (filter is_stat (snd (process options users)))" by simp
  then show False by (simp only: process_no_stat) simp
qed

lemma lookup_not_in_process: "UserLookup f i \<notin> set (snd (process options users))"
proof
  assume "UserLookup f i \<in> set (snd (process options users))"
  then have "UserLookup f i \<in> set (filter is_lookup (snd (process options users)))" by simp
  then show False by (simp only: process_no_lookup) simp
qed

lemma index_of_in: "a \<in> set xs \<Longrightarrow> \<exists>i. index_of a xs = Some i"
  by (induction xs) auto

lemma index_of_bound: "index_of a xs = Some i \<Longrightarrow> i < length xs"
  by (induction xs arbitrary: i) (auto split: if_splits)

lemma index_of_append_in: "a \<in> set xs \<Longrightarrow> index_of a (xs @ ys) = index_of a xs"
  by (induction xs) auto

lemma index_of_append_notin:
  "a \<notin> set xs \<Longrightarrow> index_of a ys = Some j \<Longrightarrow> index_of a (xs @ ys) = Some (length xs + j)"
  by (induction xs) auto

lemma happens_before_append:
  assumes "a \<in> set xs" and "b \<notin> set xs" and "b \<in> set ys"
  shows "happens_before a b (xs @ ys)"
proof -
  from assms(1) obtain i where i: "index_of a xs = Some i" using index_of_in by fastforce
  from assms(3) obtain j where j: "index_of b ys = Some j" using index_of_in by fastforce
  have "i < length xs" using i by (rule index_of_bound)
  then show ?thesis
    by (simp add: happens_before_def index_of_append_in [OF assms(1)]
        index_of_append_notin [OF assms(2) j] i)
qed

text \<open>
  C1, as amended.  Whenever \<open>process_institute\<close> runs for an institute, the entity lookup
  is the first thing it does; a stat of a mount point, when one is made, is the stat of
  that institute's \<open>home\<close> link and comes after the lookup; and every provisioning call
  comes after that stat, which then did not raise.  So the order is Entity Lookup, Mount
  Guard, Provisioner, not Mount Guard first.
\<close>

theorem lookup_precedes_mount_check:
  "hd (snd (process_institute w options inst f)) = UserLookup f inst \<and>
   (\<forall>i p. Stat i p \<in> set (snd (process_institute w options inst f)) \<longrightarrow>
      i = inst \<and> nfs_home w inst = Some p \<and>
      happens_before (UserLookup f inst) (Stat i p) (snd (process_institute w options inst f))) \<and>
   (\<forall>s u. Call s u \<in> set (snd (process_institute w options inst f)) \<longrightarrow>
      (\<exists>p. nfs_home w inst = Some p \<and> \<not> os_stat_raises w p \<and>
           happens_before (Stat inst p) (Call s u) (snd (process_institute w options inst f))))"
proof (cases "muk_user_lookup w f inst")
  case (Inl e)
  show ?thesis
    unfolding process_institute_def institute_lookup_raises [OF Inl] by simp
next
  case (Inr users)
  show ?thesis
  proof (cases "nfs_home w inst")
    case None
    show ?thesis
      unfolding process_institute_def institute_no_path [OF Inr None]
      by (simp add: cannot_stat_def)
  next
    case (Some p)
    show ?thesis
    proof (cases "os_stat_raises w p")
      case True
      have "process_institute w options inst f =
        (Inr (count_users users users),
         [UserLookup f inst,
          Log INFO ''Processing the following users from {institute}: {users}''
            [Inst inst, Strs (map user_id users)],
          Log INFO ''Checking link to NFS mount at %s'' [Str p],
          Stat inst p,
          cannot_stat inst])"
        unfolding process_institute_def by (rule institute_stat_raises [OF Inr Some True])
      then show ?thesis
        by (simp add: cannot_stat_def Some happens_before_def)
    next
      case False
      let ?pre = "[UserLookup f inst,
          Log INFO ''Processing the following users from {institute}: {users}''
            [Inst inst, Strs (map user_id users)],
          Log INFO ''Checking link to NFS mount at %s'' [Str p],
          Stat inst p]"
      let ?tp = "snd (process options users)"
      have call: "process_call options users = (Inr (fst (process options users)), ?tp)"
        by (simp add: process_call_def)
      have eq: "snd (process_institute w options inst f) = ?pre @ ?tp"
        unfolding process_institute_def institute_callee_returns [where proc = process_call, OF Inr Some False call]
        by simp
      have stat: "happens_before (UserLookup f inst) (Stat inst p) (?pre @ ?tp)"
        by (simp add: happens_before_def)
      have calls: "happens_before (Stat inst p) (Call s u) (?pre @ ?tp)"
        if "Call s u \<in> set ?tp" for s u
        by (rule happens_before_append) (use that in simp_all)
      show ?thesis
        unfolding eq using stat calls False Some
        by (auto simp: stat_not_in_process)
    qed
  qed
qed

lemma institute_cases:
  obtains (LookupRaises) e where
      "muk_user_lookup w f inst = Inl e"
      "process_institute w options inst f = (Inl e, [UserLookup f inst])"
  | (NoPath) users where
      "muk_user_lookup w f inst = Inr users" "nfs_home w inst = None"
      "process_institute w options inst f =
         (Inr (count_users users users),
          [UserLookup f inst,
           Log INFO ''Processing the following users from {institute}: {users}''
             [Inst inst, Strs (map user_id users)],
           cannot_stat inst])"
  | (StatRaises) users p where
      "muk_user_lookup w f inst = Inr users" "nfs_home w inst = Some p" "os_stat_raises w p"
      "process_institute w options inst f =
         (Inr (count_users users users),
          [UserLookup f inst,
           Log INFO ''Processing the following users from {institute}: {users}''
             [Inst inst, Strs (map user_id users)],
           Log INFO ''Checking link to NFS mount at %s'' [Str p],
           Stat inst p,
           cannot_stat inst])"
  | (Provisioned) users p where
      "muk_user_lookup w f inst = Inr users" "nfs_home w inst = Some p"
      "\<not> os_stat_raises w p"
      "process_institute w options inst f =
         (Inr (count_users users (fst (process options users))),
          [UserLookup f inst,
           Log INFO ''Processing the following users from {institute}: {users}''
             [Inst inst, Strs (map user_id users)],
           Log INFO ''Checking link to NFS mount at %s'' [Str p],
           Stat inst p] @ snd (process options users))"
proof (cases "muk_user_lookup w f inst")
  case (Inl e)
  then show ?thesis
    using LookupRaises institute_lookup_raises [OF Inl] by (simp add: process_institute_def)
next
  case (Inr users)
  show ?thesis
  proof (cases "nfs_home w inst")
    case None
    then show ?thesis
      using NoPath Inr institute_no_path [OF Inr None] by (simp add: process_institute_def)
  next
    case (Some p)
    show ?thesis
    proof (cases "os_stat_raises w p")
      case True
      then show ?thesis
        using StatRaises Inr Some institute_stat_raises [OF Inr Some True]
        by (simp add: process_institute_def)
    next
      case False
      have call: "process_call options users =
                    (Inr (fst (process options users)), snd (process options users))"
        by (simp add: process_call_def)
      show ?thesis
        using Provisioned [OF Inr Some False]
          institute_callee_returns [where proc = process_call, OF Inr Some False call]
        by (simp add: process_institute_def)
    qed
  qed
qed

lemma stat_of_institute:
  "Stat i p \<in> set (snd (process_institute w options inst f)) \<Longrightarrow> i = inst"
  by (cases rule: institute_cases [of w f inst options])
     (auto simp: cannot_stat_def stat_not_in_process)

lemma lookup_of_institute:
  "UserLookup f' i \<in> set (snd (process_institute w options inst f)) \<Longrightarrow> i = inst"
  by (cases rule: institute_cases [of w f inst options])
     (auto simp: cannot_stat_def lookup_not_in_process)

lemma gent_run:
  "process_institute example_world example_options GENT ''changed'' =
     (Inr \<lparr>ok = 1, fail = 1\<rparr>,
      [UserLookup ''changed'' GENT,
       Log INFO ''Processing the following users from {institute}: {users}''
         [Inst GENT, Strs [''vsc40001'', ''vsc40002'']],
       Log INFO ''Checking link to NFS mount at %s'' [Str ''/nfsmuk/gent''],
       Stat GENT ''/nfsmuk/gent'',
       Call create_scratch_fileset alice, Call populate_scratch_fallback alice,
       Call create_home_dir alice,
       Call create_scratch_fileset bob, Call populate_scratch_fallback bob,
       Log EXCEPTION ''Cannot process user %s'' [Str ''vsc40002'']])"
  by (simp add: process_institute_def process_institute_with_def example_world_def
      example_options_def nfs_home_def process_call_def process_def provision_def
      mark_dry_run_def alice_def bob_def count_users_def Let_def)

theorem mount_check_first_counterexample:
  "index_of (UserLookup ''changed'' GENT)
     (snd (process_institute example_world example_options GENT ''changed'')) = Some 0 \<and>
   index_of (Stat GENT ''/nfsmuk/gent'')
     (snd (process_institute example_world example_options GENT ''changed'')) = Some 3 \<and>
   \<not> happens_before (Stat GENT ''/nfsmuk/gent'') (UserLookup ''changed'' GENT)
       (snd (process_institute example_world example_options GENT ''changed''))"
  by (simp add: gent_run happens_before_def)

theorem lookup_precedes_mount_check_witness:
  "hd (snd (process_institute example_world example_options GENT ''changed'')) =
     UserLookup ''changed'' GENT \<and>
   happens_before (UserLookup ''changed'' GENT) (Stat GENT ''/nfsmuk/gent'')
     (snd (process_institute example_world example_options GENT ''changed'')) \<and>
   happens_before (Stat GENT ''/nfsmuk/gent'') (Call create_scratch_fileset alice)
     (snd (process_institute example_world example_options GENT ''changed''))"
  using lookup_precedes_mount_check [of example_world example_options GENT "''changed''"]
  by (simp add: gent_run happens_before_def alice_def bob_def)

text \<open>
  C5, as amended.  If the entity lookup of an institute raises, the exception leaves
  \<open>process_institute\<close> right after the lookup: nothing is stat'ed, no entity is
  provisioned, and no counts are returned (the entities of the institute are not known).
\<close>

theorem lookup_failure_propagates:
  "muk_user_lookup w users_filter inst = Inl e \<Longrightarrow>
   process_institute w options inst users_filter = (Inl e, [UserLookup users_filter inst])"
  by (simp add: process_institute_def institute_lookup_raises)

theorem lookup_failure_propagates_witness:
  "process_institute example_world example_options ANTWERPEN ''changed'' =
     (Inl (PyException ''LDAP server down''), [UserLookup ''changed'' ANTWERPEN])"
  using lookup_failure_propagates [of example_world "''changed''" ANTWERPEN
      "PyException ''LDAP server down''" example_options]
  by (simp add: example_world_def)

theorem lookup_failure_counts_counterexample:
  "muk_user_lookup example_world ''changed'' ANTWERPEN = Inl (PyException ''LDAP server down'') \<and>
   (\<nexists>counts. fst (process_institute example_world example_options ANTWERPEN ''changed'') =
      Inr counts)"
  by (simp add: process_institute_def process_institute_with_def example_world_def)

text \<open>
  C10.  If the lookup returned, the mount check succeeded and the call of \<open>process\<close>
  raises, \<open>process_institute\<close> raises \<open>UnboundLocalError\<close> for \<open>error_users\<close> instead of
  returning counts.  Counts are returned only when the lookup returned and either the
  mount check failed or the call of \<open>process\<close> returned normally.
\<close>

theorem callee_failure_unbound_local:
  "(muk_user_lookup w users_filter inst = Inr users \<and> \<not> mount_check_fails w inst \<and>
    fst (proc options users) = Inl e \<longrightarrow>
      fst (process_institute_with proc w options inst users_filter) =
        Inl (UnboundLocalError ''error_users'')) \<and>
   (\<forall>counts. fst (process_institute_with proc w options inst users_filter) = Inr counts \<longrightarrow>
      (\<exists>us. muk_user_lookup w users_filter inst = Inr us \<and>
            (mount_check_fails w inst \<or> (\<exists>error_users. fst (proc options us) = Inr error_users))))"
proof (intro conjI impI allI)
  assume a: "muk_user_lookup w users_filter inst = Inr users \<and> \<not> mount_check_fails w inst \<and>
    fst (proc options users) = Inl e"
  then obtain p where p: "nfs_home w inst = Some p" "\<not> os_stat_raises w p"
    by (auto simp: mount_check_fails_def split: option.splits)
  from a have lk: "muk_user_lookup w users_filter inst = Inr users" by simp
  from a have "proc options users = (Inl e, snd (proc options users))"
    by (metis prod.collapse)
  from institute_callee_raises [where proc = proc, OF lk p this]
  show "fst (process_institute_with proc w options inst users_filter) =
        Inl (UnboundLocalError ''error_users'')"
    by simp
next
  fix counts
  assume r: "fst (process_institute_with proc w options inst users_filter) = Inr counts"
  show "\<exists>us. muk_user_lookup w users_filter inst = Inr us \<and>
            (mount_check_fails w inst \<or> (\<exists>error_users. fst (proc options us) = Inr error_users))"
  proof (cases "muk_user_lookup w users_filter inst")
    case (Inl e)
    with r show ?thesis by (simp add: institute_lookup_raises)
  next
    case (Inr us)
    show ?thesis
    proof (cases "mount_check_fails w inst")
      case True
      with Inr show ?thesis by simp
    next
      case False
      then obtain p where p: "nfs_home w inst = Some p" "\<not> os_stat_raises w p"
        by (auto simp: mount_check_fails_def split: option.splits)
      show ?thesis
      proof (cases "fst (proc options us)")
        case (Inl e)
        then have "proc options us = (Inl e, snd (proc options us))"
          by (metis prod.collapse)
        from institute_callee_raises [where proc = proc, OF Inr p this] r show ?thesis by simp
      next
        case inr: (Inr error_users)
        with Inr show ?thesis by simp
      qed
    qed
  qed
qed

theorem callee_failure_unbound_local_witness:
  "fst (process_institute_with raising_callee example_world example_options GENT ''changed'') =
     Inl (UnboundLocalError ''error_users'') \<and>
   fst (process_institute_with process_call example_world example_options LEUVEN ''changed'') =
     Inr \<lparr>ok = 0, fail = 3\<rparr> \<and>
   mount_check_fails example_world LEUVEN"
  using callee_failure_unbound_local [of example_world "''changed''" GENT "[alice, bob]"
      raising_callee example_options "PyException ''logging handler failed''"]
    callee_failure_unbound_local [of example_world "''changed''" LEUVEN "[carol, alice, bob]"
      process_call example_options "PyException ''logging handler failed''"]
  by (simp add: example_world_def mount_check_fails_def nfs_home_def raising_callee_def
      process_institute_with_def count_users_def)

subsection \<open>\<open>force_nfs_mounts\<close>\<close>

lemma force_loop_result:
  "fst (force_nfs_mounts_loop w xs acc) = Inr r \<Longrightarrow> BRUSSEL \<notin> set acc \<Longrightarrow> BRUSSEL \<notin> set r"
proof (induction xs arbitrary: acc)
  case Nil
  then show ?case by simp
next
  case (Cons inst rest)
  show ?case
  proof (cases "inst = BRUSSEL")
    case True
    with Cons.prems have "fst (force_nfs_mounts_loop w rest acc) = Inr r"
      by (simp add: case_prod_beta)
    then show ?thesis using Cons.prems(2) by (rule Cons.IH)
  next
    case False
    show ?thesis
    proof (cases "nfs_home w inst")
      case None
      with False Cons.prems show ?thesis by simp
    next
      case (Some path)
      show ?thesis
      proof (cases "os_stat_raises w path")
        case True
        with False Some Cons.prems have "fst (force_nfs_mounts_loop w rest acc) = Inr r"
          by (simp add: case_prod_beta)
        then show ?thesis using Cons.prems(2) by (rule Cons.IH)
      next
        case stat_ok: False
        with False Some Cons.prems
        have "fst (force_nfs_mounts_loop w rest (acc @ [inst])) = Inr r"
          by (simp add: case_prod_beta)
        moreover have "BRUSSEL \<notin> set (acc @ [inst])" using False Cons.prems(2) by simp
        ultimately show ?thesis by (rule Cons.IH)
      qed
    qed
  qed
qed

lemma force_loop_no_stat: "Stat BRUSSEL p \<notin> set (snd (force_nfs_mounts_loop w xs acc))"
  by (induction xs arbitrary: acc)
     (simp_all add: case_prod_beta not_performing_def split: option.splits)

lemma force_loop_warnings:
  "fst (force_nfs_mounts_loop w xs acc) = Inr r \<Longrightarrow>
   count_list (snd (force_nfs_mounts_loop w xs acc)) not_performing = count_list xs BRUSSEL"
proof (induction xs arbitrary: acc)
  case Nil
  show ?case by simp
next
  case (Cons inst rest)
  show ?case
  proof (cases "inst = BRUSSEL")
    case True
    with Cons.prems have "fst (force_nfs_mounts_loop w rest acc) = Inr r"
      by (simp add: case_prod_beta)
    from Cons.IH [OF this] True show ?thesis by (simp add: case_prod_beta)
  next
    case False
    show ?thesis
    proof (cases "nfs_home w inst")
      case None
      with False Cons.prems show ?thesis by simp
    next
      case (Some path)
      show ?thesis
      proof (cases "os_stat_raises w path")
        case True
        with False Some Cons.prems have "fst (force_nfs_mounts_loop w rest acc) = Inr r"
          by (simp add: case_prod_beta)
        from Cons.IH [OF this] True False Some show ?thesis
          by (simp add: case_prod_beta not_performing_def)
      next
        case stat_ok: False
        with False Some Cons.prems
        have "fst (force_nfs_mounts_loop w rest (acc @ [inst])) = Inr r"
          by (simp add: case_prod_beta)
        from Cons.IH [OF this] stat_ok False Some show ?thesis
          by (simp add: case_prod_beta not_performing_def)
      qed
    qed
  qed
qed

lemma example_mounts:
  "force_nfs_mounts example_world =
     (Inr [GENT],
      [Stat GENT ''/nfsmuk/gent'', not_performing,
       Stat LEUVEN ''/nfsmuk/leuven'',
       Log EXCEPTION ''Cannot stat %s, not adding institute'' [Str ''/nfsmuk/leuven'']])"
  by (simp add: force_nfs_mounts_def example_world_def nfs_home_def)

subsection \<open>\<open>main\<close>\<close>

lemma unbound_logfile:
  "load_global ''SYNC_MUK_USERS_LOGFILE'' = Some (NameError ''SYNC_MUK_USERS_LOGFILE'')"
  by (simp add: load_global_def module_globals_def)

lemma unbound_MukProject: "load_global ''MukProject'' = Some (NameError ''MukProject'')"
  by (simp add: load_global_def module_globals_def)

lemma unbound_process_project:
  "load_global ''process_project'' = Some (NameError ''process_project'')"
  by (simp add: load_global_def module_globals_def)

lemma main_except_eq:
  "main_except =
     (Uncaught (NameError ''SYNC_MUK_USERS_LOGFILE''),
      [Log EXCEPTION ''Fail during muk users synchronisation'' []])"
  by (simp add: main_except_def unbound_logfile)

lemma muk_projects_eq:
  "muk_projects ids = (if ids = [] then Inr [] else Inl (NameError ''MukProject''))"
  by (cases ids) (simp_all add: unbound_MukProject)

text \<open>
  C8, as amended.  With the \<open>nagios\<close> flag set, \<open>main\<close> only calls \<open>report_and_exit\<close>: no
  lock is taken, nothing is looked up, processed, cached or written.  The process ends
  with the exit code that \<open>report_and_exit\<close> chooses; the script's own \<open>sys.exit(0)\<close> is
  reached only if \<open>report_and_exit\<close> returns.
\<close>

theorem report_only_run:
  "nagios opts \<Longrightarrow>
   main w opts =
     (SysExit (case report_and_exit w of Some c \<Rightarrow> c | None \<Rightarrow> Code 0), [ReportAndExit])"
  by (simp add: main_def split: option.splits)

theorem report_only_run_witness:
  "nagios nagios_options \<and>
   main example_world nagios_options = (SysExit (Code 2), [ReportAndExit])"
  using report_only_run [of nagios_options example_world]
  by (simp add: nagios_options_def example_world_def)

theorem report_only_exit_code_counterexample:
  "nagios nagios_options \<and>
   fst (main example_world nagios_options) = SysExit (Code 2) \<and>
   fst (main example_world nagios_options) \<noteq> SysExit (Code 0)"
  by (simp add: main_def nagios_options_def example_world_def)

text \<open>
  No run of \<open>main\<close> reaches \<open>lockfile.release()\<close> of line 187; the only release is the
  one inside \<open>release_or_bork\<close> at the end of the outcome evaluation.
\<close>

lemma main_try_no_release: "LockRelease \<notin> set (snd (main_try w))"
  by (simp add: main_try_def Let_def split: option.splits sum.splits)

lemma main_report_no_release: "LockRelease \<notin> set (snd (main_report w opts a b))"
  by (simp add: main_report_def Let_def split: option.splits sum.splits)

lemma main_never_calls_release: "LockRelease \<notin> set (snd (main w opts))"
proof (cases "main_try w")
  case (Pair r t)
  then have t: "LockRelease \<notin> set t" using main_try_no_release [of w] by simp
  show ?thesis
  proof (cases r)
    case (Inl e)
    with Pair t show ?thesis
      by (simp add: main_def Let_def main_except_eq split: option.splits)
  next
    case (Inr c)
    with Pair t main_report_no_release [of w opts "fst c" "snd c"] show ?thesis
      by (cases c) (simp add: main_def Let_def case_prod_beta split: option.splits)
  qed
qed

text \<open>
  C6.  The run of \<open>main\<close> in which the lock is acquired and the directory service finds
  no group: the bootstrap raises, the handler of line 182 logs, and evaluating
  \<open>SYNC_MUK_USERS_LOGFILE\<close> raises \<open>NameError\<close> before a report is cached, so the trace
  has no \<open>Cache\<close> and no \<open>LockRelease\<close> event and the exception leaves \<open>main\<close>.
\<close>

theorem bootstrap_failure_keeps_lock:
  "main no_group_world example_options =
     (Uncaught (NameError ''SYNC_MUK_USERS_LOGFILE''),
      [Log INFO ''Starting synchronisation of Muk users.'' [],
       ProceedOnHaService None,
       LockOrBork,
       LdapQuery,
       GroupLookup ''gmukprojects'',
       Log ERROR cannot_proceed [Str ''gmukusers''],
       Log EXCEPTION ''Fail during muk users synchronisation'' []])"
  by (simp add: main_def main_try_def first_group_def main_except_eq no_group_world_def
      example_world_def example_options_def)

text \<open>
  C9.  The run of \<open>main\<close> whose group has one member: the comprehension of line 171
  raises \<open>NameError\<close> for \<open>MukProject\<close>, the handler of line 182 logs, and evaluating
  \<open>SYNC_MUK_USERS_LOGFILE\<close> raises a second \<open>NameError\<close>, which leaves \<open>main\<close>: no
  \<open>CRITICAL\<close> report is cached and the lock is not released.
\<close>

theorem member_list_failure_keeps_lock:
  "muk_projects [''project1''] = Inl (NameError ''MukProject'') \<and>
   main example_world example_options =
     (Uncaught (NameError ''SYNC_MUK_USERS_LOGFILE''),
      [Log INFO ''Starting synchronisation of Muk users.'' [],
       ProceedOnHaService None,
       LockOrBork,
       LdapQuery,
       GroupLookup ''gmukprojects'',
       Log INFO ''Muk projects = %s'' [Str ''gmukprojects''],
       Log EXCEPTION ''Fail during muk users synchronisation'' []])"
  by (simp add: main_def main_try_def first_group_def main_except_eq muk_projects_eq
      example_world_def example_options_def)

lemma main_try_counts: "fst (main_try w) = Inr c \<Longrightarrow> c = (0, 0)"
  by (auto simp: main_try_def Let_def muk_projects_eq split: option.splits sum.splits if_splits)

lemma main_try_no_write: "list_ex is_written (snd (main_try w)) = False"
  by (simp add: main_try_def Let_def split: option.splits sum.splits)

lemma main_except_no_write: "list_ex is_written (snd main_except) = False"
  by (simp add: main_except_eq)

lemma main_reaching:
  "reaches_report w opts c \<Longrightarrow>
   snd (main w opts) =
     [Log INFO ''Starting synchronisation of Muk users.'' [], ProceedOnHaService (ha opts),
      LockOrBork] @ snd (main_try w) @ snd (main_report w opts (fst c) (snd c))"
  by (cases "main_try w"; cases c)
     (simp add: reaches_report_def main_def case_prod_beta)

lemma main_not_reaching:
  assumes "\<And>c. \<not> reaches_report w opts c"
  shows "list_ex is_written (snd (main w opts)) = False"
proof (cases "fst (main_try w)")
  case (Inl e)
  then obtain t where "main_try w = (Inl e, t)" by (cases "main_try w") simp
  moreover from this have "list_ex is_written t = False"
    using main_try_no_write [of w] by simp
  ultimately show ?thesis
    by (simp add: main_def Let_def main_except_no_write split: option.splits)
next
  case (Inr c)
  with assms [of c] have "nagios opts \<or> \<not> proceed_on_ha_service w (ha opts) \<or> lock_or_bork w \<noteq> None"
    by (auto simp: reaches_report_def)
  then show ?thesis
    by (auto simp: main_def Let_def split: option.splits)
qed

lemma report_written:
  "timestamp_written (snd (main_report w opts projects_ok projects_fail)) =
     (projects_fail = 0 \<and> \<not> dry_run opts \<and> (\<exists>ts. convert_timestamp w = Inr ts) \<and>
      \<not> write_timestamp_raises w)"
  by (simp add: timestamp_written_def main_report_def Let_def split: sum.splits option.splits)

lemma report_partial_failure:
  "0 < projects_fail \<Longrightarrow>
   cached (snd (main_report w opts projects_ok projects_fail)) =
     [(NAGIOS_EXIT_WARNING,
       NagiosResult ''several projects were not synched'' (result_dict projects_ok projects_fail))] \<and>
   \<not> list_ex is_write_call (snd (main_report w opts projects_ok projects_fail))"
  by (simp add: main_report_def Let_def split: option.splits)

lemma report_write_raises:
  "projects_fail = 0 \<Longrightarrow> \<not> dry_run opts \<Longrightarrow> convert_timestamp w = Inr ts \<Longrightarrow>
   write_timestamp_raises w \<Longrightarrow>
   cached (snd (main_report w opts projects_ok projects_fail)) =
     [(NAGIOS_EXIT_WARNING,
       NagiosResult ''muk projects synchronised, filestamp not written''
         (result_dict projects_ok projects_fail))]"
  by (simp add: main_report_def Let_def split: option.splits)

lemma report_ok:
  "projects_fail = 0 \<Longrightarrow> convert_timestamp w = Inr ts \<Longrightarrow>
   dry_run opts \<or> \<not> write_timestamp_raises w \<Longrightarrow>
   cached (snd (main_report w opts projects_ok projects_fail)) =
     [(NAGIOS_EXIT_OK,
       NagiosResult ''muk projects synchronised'' (result_dict projects_ok projects_fail))]"
  by (auto simp: main_report_def Let_def split: option.splits)

lemma main_written:
  "timestamp_written (snd (main w opts)) =
     ((\<exists>projects_ok. reaches_report w opts (projects_ok, 0)) \<and> \<not> dry_run opts \<and>
      (\<exists>ts. convert_timestamp w = Inr ts) \<and> \<not> write_timestamp_raises w)"
proof (cases "\<exists>c. reaches_report w opts c")
  case True
  then obtain c where c: "reaches_report w opts c" ..
  then have "fst (main_try w) = Inr c" by (simp add: reaches_report_def)
  then have c0: "c = (0, 0)" by (rule main_try_counts)
  have u: "reaches_report w opts (k, 0) \<Longrightarrow> k = 0" for k
    using main_try_counts [of w "(k, 0)"] by (simp add: reaches_report_def)
  have "timestamp_written (snd (main w opts)) =
        timestamp_written (snd (main_report w opts 0 0))"
    using main_reaching [OF c] main_try_no_write [of w]
    by (simp add: timestamp_written_def c0)
  also have "\<dots> = (\<not> dry_run opts \<and> (\<exists>ts. convert_timestamp w = Inr ts) \<and>
      \<not> write_timestamp_raises w)"
    by (simp add: report_written)
  finally show ?thesis using c c0 by auto
next
  case False
  then have "\<not> reaches_report w opts c" for c by blast
  then have "list_ex is_written (snd (main w opts)) = False"
    by (rule main_not_reaching)
  with False show ?thesis by (auto simp: timestamp_written_def)
qed


text \<open>
  C2.  The timestamp file is written in a run of \<open>main\<close> if and only if the run reaches
  the outcome evaluation with fail count 0, \<open>dry_run\<close> is false, and the persistence step
  (\<open>convert_timestamp\<close>, then \<open>write_timestamp\<close>) does not raise; the same holds of the
  outcome evaluation for any counts.  With a fail count above 0 exactly one report, a
  \<open>WARNING\<close>, is cached and \<open>write_timestamp\<close> is not called.  With fail count 0 and a
  \<open>write_timestamp\<close> that raises, exactly one report is cached, the \<open>WARNING\<close> whose
  message says that the timestamp was not written; otherwise the \<open>OK\<close> report is cached.
\<close>

theorem timestamp_written_iff:
  "(timestamp_written (snd (main w opts)) \<longleftrightarrow>
      (\<exists>projects_ok. reaches_report w opts (projects_ok, 0)) \<and> \<not> dry_run opts \<and>
      (\<exists>ts. convert_timestamp w = Inr ts) \<and> \<not> write_timestamp_raises w) \<and>
   (timestamp_written (snd (main_report w opts projects_ok projects_fail)) \<longleftrightarrow>
      projects_fail = 0 \<and> \<not> dry_run opts \<and>
      (\<exists>ts. convert_timestamp w = Inr ts) \<and> \<not> write_timestamp_raises w) \<and>
   (0 < projects_fail \<longrightarrow>
      cached (snd (main_report w opts projects_ok projects_fail)) =
        [(NAGIOS_EXIT_WARNING,
          NagiosResult ''several projects were not synched''
            (result_dict projects_ok projects_fail))] \<and>
      \<not> list_ex is_write_call (snd (main_report w opts projects_ok projects_fail))) \<and>
   (projects_fail = 0 \<and> \<not> dry_run opts \<and> (\<exists>ts. convert_timestamp w = Inr ts) \<and>
    write_timestamp_raises w \<longrightarrow>
      cached (snd (main_report w opts projects_ok projects_fail)) =
        [(NAGIOS_EXIT_WARNING,
          NagiosResult ''muk projects synchronised, filestamp not written''
            (result_dict projects_ok projects_fail))]) \<and>
   (projects_fail = 0 \<and> (\<exists>ts. convert_timestamp w = Inr ts) \<and>
    (dry_run opts \<or> \<not> write_timestamp_raises w) \<longrightarrow>
      cached (snd (main_report w opts projects_ok projects_fail)) =
        [(NAGIOS_EXIT_OK,
          NagiosResult ''muk projects synchronised''
            (result_dict projects_ok projects_fail))])"
proof (intro conjI impI)
  show "timestamp_written (snd (main w opts)) \<longleftrightarrow>
      (\<exists>projects_ok. reaches_report w opts (projects_ok, 0)) \<and> \<not> dry_run opts \<and>
      (\<exists>ts. convert_timestamp w = Inr ts) \<and> \<not> write_timestamp_raises w"
    by (rule main_written)
  show "timestamp_written (snd (main_report w opts projects_ok projects_fail)) \<longleftrightarrow>
      projects_fail = 0 \<and> \<not> dry_run opts \<and>
      (\<exists>ts. convert_timestamp w = Inr ts) \<and> \<not> write_timestamp_raises w"
    by (rule report_written)
next
  assume "0 < projects_fail"
  from report_partial_failure [OF this]
  show "cached (snd (main_report w opts projects_ok projects_fail)) =
        [(NAGIOS_EXIT_WARNING,
          NagiosResult ''several projects were not synched''
            (result_dict projects_ok projects_fail))]"
    and "\<not> list_ex is_write_call (snd (main_report w opts projects_ok projects_fail))"
    by simp_all
next
  assume "projects_fail = 0 \<and> \<not> dry_run opts \<and> (\<exists>ts. convert_timestamp w = Inr ts) \<and>
    write_timestamp_raises w"
  then show "cached (snd (main_report w opts projects_ok projects_fail)) =
        [(NAGIOS_EXIT_WARNING,
          NagiosResult ''muk projects synchronised, filestamp not written''
            (result_dict projects_ok projects_fail))]"
    using report_write_raises by blast
next
  assume "projects_fail = 0 \<and> (\<exists>ts. convert_timestamp w = Inr ts) \<and>
    (dry_run opts \<or> \<not> write_timestamp_raises w)"
  then show "cached (snd (main_report w opts projects_ok projects_fail)) =
        [(NAGIOS_EXIT_OK,
          NagiosResult ''muk projects synchronised''
            (result_dict projects_ok projects_fail))]"
    using report_ok by blast
qed

lemma idle_reaches: "reaches_report idle_world example_options (0, 0)"
  by (simp add: reaches_report_def main_try_def first_group_def idle_world_def
      example_world_def example_options_def)

theorem timestamp_written_iff_witness:
  "timestamp_written (snd (main idle_world example_options)) \<and>
   \<not> timestamp_written (snd (main readonly_world example_options)) \<and>
   cached (snd (main_report idle_world example_options 2 3)) =
     [(NAGIOS_EXIT_WARNING,
       NagiosResult ''several projects were not synched'' (result_dict 2 3))] \<and>
   cached (snd (main_report readonly_world example_options 5 0)) =
     [(NAGIOS_EXIT_WARNING,
       NagiosResult ''muk projects synchronised, filestamp not written'' (result_dict 5 0))] \<and>
   cached (snd (main_report idle_world example_options 5 0)) =
     [(NAGIOS_EXIT_OK, NagiosResult ''muk projects synchronised'' (result_dict 5 0))]"
  using timestamp_written_iff [of idle_world example_options 2 3]
    timestamp_written_iff [of idle_world example_options 5 0]
    timestamp_written_iff [of readonly_world example_options 5 0]
    idle_reaches
  by (auto simp: idle_world_def readonly_world_def example_world_def example_options_def)

subsection \<open>The excluded institute\<close>

lemma main_try_touches_none: "list_ex touches_institute (snd (main_try w)) = False"
  by (simp add: main_try_def Let_def split: option.splits sum.splits)

lemma main_report_touches_none:
  "list_ex touches_institute (snd (main_report w opts a b)) = False"
  by (simp add: main_report_def Let_def split: option.splits sum.splits)

lemma main_touches_none: "list_ex touches_institute (snd (main w opts)) = False"
proof (cases "main_try w")
  case (Pair r t)
  then have t: "list_ex touches_institute t = False"
    using main_try_touches_none [of w] by simp
  show ?thesis
  proof (cases r)
    case (Inl e)
    with Pair t show ?thesis
      by (simp add: main_def Let_def main_except_eq split: option.splits)
  next
    case (Inr c)
    with Pair t main_report_touches_none [of w opts "fst c" "snd c"] show ?thesis
      by (cases c) (simp add: main_def Let_def case_prod_beta split: option.splits)
  qed
qed

lemma main_event_touches_none:
  "ev \<in> set (snd (main w opts)) \<Longrightarrow> \<not> touches_institute ev"
  using main_touches_none [of w opts] by (auto simp: list_ex_iff)

text \<open>
  C7.  For every run of \<open>main\<close> and every mount status, the trace holds no lookup, no
  stat and no provisioning call at all, so \<open>BRUSSEL\<close> is never queried and none of its
  entities is processed.  The one code path that iterates the institutes,
  \<open>force_nfs_mounts\<close>, never stats the mount point of \<open>BRUSSEL\<close>, never returns
  \<open>BRUSSEL\<close>, and when it returns it has logged the warning once for each occurrence
  of \<open>BRUSSEL\<close> in \<open>muk.institutes\<close>; \<open>process_institute\<close> run for an institute that
  \<open>force_nfs_mounts\<close> returned neither looks \<open>BRUSSEL\<close> up nor stats its mount point.
\<close>

theorem excluded_institute_skipped:
  "(\<forall>f i. UserLookup f i \<notin> set (snd (main w opts))) \<and>
   (\<forall>i p. Stat i p \<notin> set (snd (main w opts))) \<and>
   (\<forall>s u. Call s u \<notin> set (snd (main w opts))) \<and>
   (\<forall>r. fst (force_nfs_mounts w) = Inr r \<longrightarrow>
      BRUSSEL \<notin> set r \<and>
      count_list (snd (force_nfs_mounts w)) not_performing = count_list (institutes w) BRUSSEL \<and>
      (\<forall>inst \<in> set r. \<forall>f' p.
         UserLookup f' BRUSSEL \<notin> set (snd (process_institute w options inst f)) \<and>
         Stat BRUSSEL p \<notin> set (snd (process_institute w options inst f)))) \<and>
   (\<forall>p. Stat BRUSSEL p \<notin> set (snd (force_nfs_mounts w)))"
proof (intro conjI allI impI ballI)
  fix f i show "UserLookup f i \<notin> set (snd (main w opts))"
    using main_event_touches_none [of "UserLookup f i" w opts] by auto
next
  fix i p show "Stat i p \<notin> set (snd (main w opts))"
    using main_event_touches_none [of "Stat i p" w opts] by auto
next
  fix s u show "Call s u \<notin> set (snd (main w opts))"
    using main_event_touches_none [of "Call s u" w opts] by auto
next
  fix r assume r: "fst (force_nfs_mounts w) = Inr r"
  then show b: "BRUSSEL \<notin> set r"
    unfolding force_nfs_mounts_def by (rule force_loop_result) simp
  from r show "count_list (snd (force_nfs_mounts w)) not_performing =
               count_list (institutes w) BRUSSEL"
    unfolding force_nfs_mounts_def by (rule force_loop_warnings)
  fix inst f' p assume "inst \<in> set r"
  with b have ne: "inst \<noteq> BRUSSEL" by auto
  show "UserLookup f' BRUSSEL \<notin> set (snd (process_institute w options inst f))"
    using lookup_of_institute ne by blast
  show "Stat BRUSSEL p \<notin> set (snd (process_institute w options inst f))"
    using stat_of_institute ne by blast
next
  fix p show "Stat BRUSSEL p \<notin> set (snd (force_nfs_mounts w))"
    unfolding force_nfs_mounts_def by (rule force_loop_no_stat)
qed

theorem excluded_institute_skipped_witness:
  "UserLookup ''changed'' BRUSSEL \<notin> set (snd (main example_world example_options)) \<and>
   Stat BRUSSEL ''/nfsmuk/brussel'' \<notin> set (snd (main example_world example_options)) \<and>
   Call create_scratch_fileset carol \<notin> set (snd (main example_world example_options)) \<and>
   fst (force_nfs_mounts example_world) = Inr [GENT] \<and>
   count_list (snd (force_nfs_mounts example_world)) not_performing = 1 \<and>
   UserLookup ''changed'' BRUSSEL \<notin>
     set (snd (process_institute example_world example_options GENT ''changed'')) \<and>
   Stat BRUSSEL ''/nfsmuk/brussel'' \<notin> set (snd (force_nfs_mounts example_world))"
  using excluded_institute_skipped [where w = example_world and opts = example_options
      and options = example_options and f = "''changed''"]
  by (simp add: example_mounts) (simp add: example_world_def)

end
